theory Spec2Isabelle
  imports Main "HOL-Library.Word"
begin

section \<open>The order-book indexer of EasySwapSync (package orderbookindexer)\<close>

text \<open>
  A shallow embedding of \<^verbatim>\<open>service/orderbookindexer/service.go\<close>: the polling loop
  \<^verbatim>\<open>SyncOrderBookEventLoop\<close> and its three handlers \<^verbatim>\<open>handleMakeEvent\<close>,
  \<^verbatim>\<open>handleMatchEvent\<close> and \<^verbatim>\<open>handleCancelEvent\<close>. The relational store, the
  Redis queues, the chain RPC and the wall clock are made explicit: the tables and
  the queues are fields of a state record that every handler takes and returns, and
  the answers of the outside world during one handler call (clock, block time,
  which database call fails) are an argument of the handler.
\<close>

subsection \<open>Constants of the package\<close>

definition SleepInterval :: nat where "SleepInterval = 10"
definition SyncBlockPeriod :: "64 word" where "SyncBlockPeriod = 10"

definition LogMakeTopic :: string where
  "LogMakeTopic = ''0xfc37f2ff950f95913eb7182357ba3c14df60ef354bc7d6ab1ba2815f249fffe6''"
definition LogCancelTopic :: string where
  "LogCancelTopic = ''0x0ac8bb53fac566d7afc05d8b4df11d7690a7b27bdc40b54e4060f9b21fb849bd''"
definition LogMatchTopic :: string where
  "LogMatchTopic = ''0xf629aecab94607bc43ce4aebd564bf6e61c7327226a797b002de724b9944b20e''"

definition FixForCollection :: "8 word" where "FixForCollection = 0"
definition FixForItem :: "8 word" where "FixForItem = 1"
definition List :: "8 word" where "List = 0"
definition Bid :: "8 word" where "Bid = 1"

definition HexPrefix :: string where "HexPrefix = ''0x''"
definition ZeroAddress :: string where
  "ZeroAddress = ''0x0000000000000000000000000000000000000000''"

text \<open>
  \<^verbatim>\<open>MultiChainMaxBlockDifference\<close>: a Go map read with \<^verbatim>\<open>m[s.chain]\<close>, which
  yields the zero value for a chain that is not a key.
\<close>

definition MultiChainMaxBlockDifference :: "string \<Rightarrow> 64 word" where
  "MultiChainMaxBlockDifference chain =
     (if chain = ''eth'' then 1
      else if chain = ''optimism'' then 2
      else if chain = ''starknet'' then 1
      else if chain = ''arbitrum'' then 2
      else if chain = ''base'' then 2
      else if chain = ''zksync-era'' then 2
      else 0)"

subsection \<open>Values of the libraries\<close>

text \<open>
  A \<^verbatim>\<open>common.Address\<close> is identified with the text its \<^verbatim>\<open>String()\<close> method
  returns (the mixed-case checksum rendering). A topic (\<^verbatim>\<open>common.Hash\<close>) is given by
  the three readings the handlers take of its 32 bytes.
\<close>

type_synonym address = string

record topic =
  topic_hex :: string            \<comment> \<open>\<^verbatim>\<open>hex.EncodeToString(t.Bytes())\<close>\<close>
  topic_uint64 :: "64 word"      \<comment> \<open>\<^verbatim>\<open>new(big.Int).SetBytes(t.Bytes()).Uint64()\<close>\<close>
  topic_address :: address       \<comment> \<open>\<^verbatim>\<open>common.BytesToAddress(t.Bytes()).String()\<close>\<close>

definition Hash_String :: "topic \<Rightarrow> string" where
  "Hash_String t = HexPrefix @ topic_hex t"

text \<open>\<^verbatim>\<open>strings.ToLower\<close>, on the ASCII letters an address or a hash is written with.\<close>

definition lower_char :: "char \<Rightarrow> char" where
  "lower_char c =
     (case map_of (zip ''ABCDEFGHIJKLMNOPQRSTUVWXYZ'' ''abcdefghijklmnopqrstuvwxyz'') c of
        Some d \<Rightarrow> d
      | None \<Rightarrow> c)"

definition ToLower :: "string \<Rightarrow> string" where
  "ToLower s = map lower_char s"

text \<open>
  \<^verbatim>\<open>(*big.Int).String()\<close> of a non-negative integer: its decimal digits.
\<close>

fun BigInt_String :: "nat \<Rightarrow> string" where
  "BigInt_String n =
     (if n < 10 then [''0123456789'' ! n]
      else BigInt_String (n div 10) @ [''0123456789'' ! (n mod 10)])"

declare BigInt_String.simps [simp del]

text \<open>
  \<^verbatim>\<open>(*big.Int).Int64()\<close> of a non-negative integer: the low 64 bits, read as a signed
  value. \<^verbatim>\<open>int64(x)\<close> of a \<^verbatim>\<open>uint64\<close> is the same reading of the 64 bits.
\<close>

definition BigInt_Int64 :: "nat \<Rightarrow> int" where
  "BigInt_Int64 n = sint (word_of_nat n :: 64 word)"

definition int64 :: "64 word \<Rightarrow> int" where
  "int64 w = sint w"

subsection \<open>Rows of the tables (package multi) and queue messages (package ordermanager)\<close>

datatype order_status = OrderStatusActive | OrderStatusFilled | OrderStatusCancelled | OrderStatusExpired

datatype order_type = ListingOrder | CollectionBidOrder | ItemBidOrder

datatype activity_type =
  Listing | CollectionBid | ItemBid | Sale | CancelListing | CancelCollectionBid | CancelItemBid

datatype marketplace = MarketOrderBook

record order_row =
  CollectionAddress :: string
  MarketplaceId :: marketplace
  TokenId :: string
  OrderID :: string
  OrderStatus :: order_status
  EventTime :: int
  ExpireTime :: int
  CurrencyAddress :: string
  Price :: nat
  Maker :: string
  Taker :: string
  QuantityRemaining :: int
  Size :: int
  OrderType :: order_type
  Salt :: int

record activity_row =
  ActivityType :: activity_type
  ActMaker :: string
  ActTaker :: string
  ActMarketplaceID :: marketplace
  ActCollectionAddress :: string
  ActTokenId :: string
  ActCurrencyAddress :: string
  ActPrice :: nat
  ActBlockNumber :: int
  ActTxHash :: string
  ActEventTime :: int

text \<open>The message \<^verbatim>\<open>AddToOrderManagerQueue\<close> is given: the six fields the handler fills.\<close>

record queued_order =
  QExpireTime :: int
  QOrderID :: string
  QCollectionAddress :: string
  QTokenId :: string
  QPrice :: nat
  QMaker :: string

datatype trade_event_type = Buy | Cancel

record trade_event =
  TE_OrderId :: string
  TE_CollectionAddr :: string
  TE_EventType :: trade_event_type
  TE_TokenID :: string
  TE_From :: string
  TE_To :: string

subsection \<open>The state: database tables and queues\<close>

text \<open>
  The orders table is keyed by \<^verbatim>\<open>order_id\<close> and the items table by
  \<^verbatim>\<open>(collection_address, token_id)\<close>; of an item only the \<^verbatim>\<open>owner\<close> column is
  read or written here. \<^verbatim>\<open>last_indexed_block\<close> is the row of \<^verbatim>\<open>indexed_status\<close>
  for this chain and \<^verbatim>\<open>EventIndexType\<close>.
\<close>

record state =
  orders :: "string \<rightharpoonup> order_row"
  activities :: "activity_row list"
  items :: "(string \<times> string) \<rightharpoonup> string"
  last_indexed_block :: "64 word"
  order_queue :: "queued_order list"
  trade_events :: "trade_event list"

record config =
  chain :: string
  EthAddress :: string

subsection \<open>Logs and their decoding\<close>

record Nft =
  NftTokenId :: nat
  NftCollectionAddr :: address
  NftAmount :: nat

record make_event =
  MkOrderKey :: string   \<comment> \<open>\<^verbatim>\<open>hex.EncodeToString(event.OrderKey[:])\<close>\<close>
  MkNft :: Nft
  MkPrice :: nat
  MkExpiry :: "64 word"
  MkSalt :: "64 word"

record Order =
  Side :: "8 word"
  SaleKind :: "8 word"
  OMaker :: address
  ONft :: Nft
  OPrice :: nat
  OExpiry :: "64 word"
  OSalt :: "64 word"

record match_event =
  MakeOrder :: Order
  TakeOrder :: Order
  FillPrice :: nat

text \<open>
  The data of a log is what \<^verbatim>\<open>parsedAbi.UnpackIntoInterface\<close> can read from it:
  the fields of a LogMake, those of a LogMatch, or neither.
\<close>

datatype log_data = MakeData make_event | MatchData match_event | OtherData

definition Unpack_LogMake :: "log_data \<Rightarrow> make_event option" where
  "Unpack_LogMake d = (case d of MakeData e \<Rightarrow> Some e | _ \<Rightarrow> None)"

definition Unpack_LogMatch :: "log_data \<Rightarrow> match_event option" where
  "Unpack_LogMatch d = (case d of MatchData e \<Rightarrow> Some e | _ \<Rightarrow> None)"

record eth_log =
  Topics :: "topic list"
  Data :: log_data
  BlockNumber :: "64 word"
  TxHash :: string            \<comment> \<open>\<^verbatim>\<open>log.TxHash.String()\<close>\<close>

subsection \<open>The outside world during one handler call\<close>

datatype call =
  CreateOrder | CreateActivity | PushOrderQueue
  | UpdateSellOrder | FirstBuyOrder | UpdateBuyOrder | UpdateItemOwner | PushTradeEvent
  | UpdateCancelOrder | FirstCancelOrder

record io =
  now :: int                       \<comment> \<open>\<^verbatim>\<open>time.Now().Unix()\<close>\<close>
  block_time :: "64 word option"   \<comment> \<open>\<^verbatim>\<open>BlockTimeByNumber\<close>; \<open>None\<close> is its error\<close>
  fails :: "call \<Rightarrow> bool"          \<comment> \<open>the database or queue call returns an error\<close>

text \<open>
  \<^verbatim>\<open>Create\<close> with \<^verbatim>\<open>clause.OnConflict{DoNothing: true}\<close> on the orders table: a row
  whose \<^verbatim>\<open>order_id\<close> is present is left as it is. A call that returns an error
  changes nothing.
\<close>

definition create_order :: "io \<Rightarrow> order_row \<Rightarrow> state \<Rightarrow> state" where
  "create_order e r s =
     (if fails e CreateOrder then s
      else case orders s (OrderID r) of
             Some _ \<Rightarrow> s
           | None \<Rightarrow> s\<lparr>orders := (orders s)(OrderID r \<mapsto> r)\<rparr>)"

text \<open>
  Modelled from the spec: the uniqueness constraint of the activities table, whose schema
  is not in the sources. The spec has an Activity idempotent on \<^verbatim>\<open>(tx_hash, log_index)\<close>;
  the handlers set no log index, so every row they build carries the same one and two
  rows conflict when their \<^verbatim>\<open>tx_hash\<close> agree.
\<close>

definition activity_conflict :: "activity_row \<Rightarrow> activity_row \<Rightarrow> bool" where
  "activity_conflict a b = (ActTxHash a = ActTxHash b)"

definition create_activity :: "io \<Rightarrow> activity_row \<Rightarrow> state \<Rightarrow> state" where
  "create_activity e a s =
     (if fails e CreateActivity then s
      else if list_ex (activity_conflict a) (activities s) then s
      else s\<lparr>activities := activities s @ [a]\<rparr>)"

definition AddToOrderManagerQueue :: "io \<Rightarrow> queued_order \<Rightarrow> state \<Rightarrow> state" where
  "AddToOrderManagerQueue e q s =
     (if fails e PushOrderQueue then s else s\<lparr>order_queue := order_queue s @ [q]\<rparr>)"

definition AddUpdatePriceEvent :: "io \<Rightarrow> trade_event \<Rightarrow> state \<Rightarrow> state" where
  "AddUpdatePriceEvent e t s =
     (if fails e PushTradeEvent then s else s\<lparr>trade_events := trade_events s @ [t]\<rparr>)"

subsection \<open>handleMakeEvent\<close>

text \<open>
  The result of a handler is \<open>None\<close> when the Go code panics (an index into
  \<^verbatim>\<open>log.Topics\<close> out of range) and the state it leaves otherwise, whether it ran to
  its end or returned early.
\<close>

definition make_order_type :: "8 word \<Rightarrow> 8 word \<Rightarrow> order_type" where
  "make_order_type side saleKind =
     (if side = Bid then
        (if saleKind = FixForCollection then CollectionBidOrder else ItemBidOrder)
      else ListingOrder)"

definition make_activity_type :: "8 word \<Rightarrow> 8 word \<Rightarrow> activity_type" where
  "make_activity_type side saleKind =
     (if side = Bid then
        (if saleKind = FixForCollection then CollectionBid else ItemBid)
      else Listing)"

definition make_newOrder :: "config \<Rightarrow> io \<Rightarrow> eth_log \<Rightarrow> make_event \<Rightarrow> order_row" where
  "make_newOrder cfg e l ev =
     (let side = (ucast (topic_uint64 (Topics l ! 1)) :: 8 word);
          saleKind = (ucast (topic_uint64 (Topics l ! 2)) :: 8 word);
          maker = topic_address (Topics l ! 3)
      in \<lparr> CollectionAddress = NftCollectionAddr (MkNft ev),
           MarketplaceId = MarketOrderBook,
           TokenId = BigInt_String (NftTokenId (MkNft ev)),
           OrderID = HexPrefix @ MkOrderKey ev,
           OrderStatus = OrderStatusActive,
           EventTime = now e,
           ExpireTime = int64 (MkExpiry ev),
           CurrencyAddress = EthAddress cfg,
           Price = MkPrice ev,
           Maker = maker,
           Taker = ZeroAddress,
           QuantityRemaining = BigInt_Int64 (NftAmount (MkNft ev)),
           Size = BigInt_Int64 (NftAmount (MkNft ev)),
           OrderType = make_order_type side saleKind,
           Salt = int64 (MkSalt ev) \<rparr>)"

definition make_newActivity ::
  "config \<Rightarrow> eth_log \<Rightarrow> make_event \<Rightarrow> 64 word \<Rightarrow> activity_row" where
  "make_newActivity cfg l ev blockTime =
     (let side = (ucast (topic_uint64 (Topics l ! 1)) :: 8 word);
          saleKind = (ucast (topic_uint64 (Topics l ! 2)) :: 8 word);
          maker = topic_address (Topics l ! 3)
      in \<lparr> ActivityType = make_activity_type side saleKind,
           ActMaker = maker,
           ActTaker = ZeroAddress,
           ActMarketplaceID = MarketOrderBook,
           ActCollectionAddress = NftCollectionAddr (MkNft ev),
           ActTokenId = BigInt_String (NftTokenId (MkNft ev)),
           ActCurrencyAddress = EthAddress cfg,
           ActPrice = MkPrice ev,
           ActBlockNumber = int64 (BlockNumber l),
           ActTxHash = TxHash l,
           ActEventTime = int64 blockTime \<rparr>)"

definition make_queued :: "order_row \<Rightarrow> queued_order" where
  "make_queued r =
     \<lparr> QExpireTime = ExpireTime r, QOrderID = OrderID r,
       QCollectionAddress = CollectionAddress r, QTokenId = TokenId r,
       QPrice = Price r, QMaker = Maker r \<rparr>"

definition handleMakeEvent :: "config \<Rightarrow> io \<Rightarrow> eth_log \<Rightarrow> state \<Rightarrow> state option" where
  "handleMakeEvent cfg e l s =
     (case Unpack_LogMake (Data l) of
        None \<Rightarrow> Some s
      | Some ev \<Rightarrow>
          (if length (Topics l) < 4 then None
           else
             (let newOrder = make_newOrder cfg e l ev;
                  s1 = create_order e newOrder s
              in (case block_time e of
                    None \<Rightarrow> Some s1
                  | Some blockTime \<Rightarrow>
                      (let s2 = create_activity e (make_newActivity cfg l ev blockTime) s1
                       in Some (AddToOrderManagerQueue e (make_queued newOrder) s2))))))"

subsection \<open>handleMatchEvent\<close>

text \<open>
  \<^verbatim>\<open>Table(orders).Where("order_id = ?", id).Updates(...)\<close>: the row with that id is
  rewritten; with no such row the call changes nothing and returns no error.
\<close>

definition update_order :: "string \<Rightarrow> (order_row \<Rightarrow> order_row) \<Rightarrow> state \<Rightarrow> state" where
  "update_order oid f s =
     (case orders s oid of
        None \<Rightarrow> s
      | Some r \<Rightarrow> s\<lparr>orders := (orders s)(oid \<mapsto> f r)\<rparr>)"

definition update_item_owner :: "string \<Rightarrow> string \<Rightarrow> string \<Rightarrow> state \<Rightarrow> state" where
  "update_item_owner collection tokenId owner s =
     (case items s (collection, tokenId) of
        None \<Rightarrow> s
      | Some _ \<Rightarrow> s\<lparr>items := (items s)((collection, tokenId) \<mapsto> owner)\<rparr>)"

text \<open>
  Steps 3.1 and 3.2 (3.3 and 3.4 in the other branch) of the source, which writes them
  once for each direction with the two order ids exchanged: the sell order is set to
  Filled, then the buy order is read and its remaining quantity reduced. \<open>Inl\<close> is the
  state at an early \<^verbatim>\<open>return\<close>, \<open>Inr\<close> the state with which the handler goes on.
  \<^verbatim>\<open>First\<close> returns an error when no row has the id.
\<close>

definition fill_orders :: "io \<Rightarrow> string \<Rightarrow> string \<Rightarrow> string \<Rightarrow> state \<Rightarrow> state + state" where
  "fill_orders e sellOrderId buyOrderId to s =
     (if fails e UpdateSellOrder then Inl s
      else
        (let s1 = update_order sellOrderId
                    (\<lambda>r. r\<lparr>OrderStatus := OrderStatusFilled, QuantityRemaining := 0, Taker := to\<rparr>) s
         in if fails e FirstBuyOrder then Inl s1
            else
              (case orders s1 buyOrderId of
                 None \<Rightarrow> Inl s1
               | Some buyOrder \<Rightarrow>
                   (if fails e UpdateBuyOrder then Inl s1
                    else if QuantityRemaining buyOrder > 1 then
                      Inr (update_order buyOrderId
                             (\<lambda>r. r\<lparr>QuantityRemaining := QuantityRemaining buyOrder - 1\<rparr>) s1)
                    else
                      Inr (update_order buyOrderId
                             (\<lambda>r. r\<lparr>OrderStatus := OrderStatusFilled, QuantityRemaining := 0\<rparr>) s1)))))"

definition sale_activity ::
  "config \<Rightarrow> eth_log \<Rightarrow> match_event \<Rightarrow> string \<Rightarrow> string \<Rightarrow> 64 word \<Rightarrow> activity_row" where
  "sale_activity cfg l ev collection tokenId blockTime =
     \<lparr> ActivityType = Sale,
       ActMaker = OMaker (MakeOrder ev),
       ActTaker = OMaker (TakeOrder ev),
       ActMarketplaceID = MarketOrderBook,
       ActCollectionAddress = collection,
       ActTokenId = tokenId,
       ActCurrencyAddress = EthAddress cfg,
       ActPrice = FillPrice ev,
       ActBlockNumber = int64 (BlockNumber l),
       ActTxHash = TxHash l,
       ActEventTime = int64 blockTime \<rparr>"

text \<open>Steps 4 to 7: block time, Sale activity, owner of the item, trade event.\<close>

definition finish_match ::
  "config \<Rightarrow> io \<Rightarrow> eth_log \<Rightarrow> match_event \<Rightarrow> string \<Rightarrow> string \<Rightarrow> string \<Rightarrow> string \<Rightarrow> string
     \<Rightarrow> string \<Rightarrow> state \<Rightarrow> state" where
  "finish_match cfg e l ev owner collection tokenId from to sellOrderId s =
     (case block_time e of
        None \<Rightarrow> s
      | Some blockTime \<Rightarrow>
          (let s1 = create_activity e (sale_activity cfg l ev collection tokenId blockTime) s
           in if fails e UpdateItemOwner then s1
              else
                AddUpdatePriceEvent e
                  \<lparr> TE_OrderId = sellOrderId, TE_CollectionAddr = collection,
                    TE_EventType = Buy, TE_TokenID = tokenId, TE_From = from, TE_To = to \<rparr>
                  (update_item_owner (ToLower collection) tokenId owner s1)))"

definition handleMatchEvent :: "config \<Rightarrow> io \<Rightarrow> eth_log \<Rightarrow> state \<Rightarrow> state option" where
  "handleMatchEvent cfg e l s =
     (case Unpack_LogMatch (Data l) of
        None \<Rightarrow> Some s
      | Some ev \<Rightarrow>
          (if length (Topics l) < 3 then None
           else
             (let makeOrderId = HexPrefix @ topic_hex (Topics l ! 1);
                  takeOrderId = HexPrefix @ topic_hex (Topics l ! 2)
              in if Side (MakeOrder ev) = Bid then
                   (let owner = ToLower (OMaker (MakeOrder ev));
                        collection = NftCollectionAddr (ONft (TakeOrder ev));
                        tokenId = BigInt_String (NftTokenId (ONft (TakeOrder ev)));
                        from = OMaker (TakeOrder ev);
                        to = OMaker (MakeOrder ev);
                        sellOrderId = takeOrderId
                    in (case fill_orders e takeOrderId makeOrderId to s of
                          Inl s1 \<Rightarrow> Some s1
                        | Inr s1 \<Rightarrow>
                            Some (finish_match cfg e l ev owner collection tokenId from to
                                    sellOrderId s1)))
                 else
                   (let owner = ToLower (OMaker (TakeOrder ev));
                        collection = NftCollectionAddr (ONft (MakeOrder ev));
                        tokenId = BigInt_String (NftTokenId (ONft (MakeOrder ev)));
                        from = OMaker (MakeOrder ev);
                        to = OMaker (TakeOrder ev);
                        sellOrderId = makeOrderId
                    in (case fill_orders e makeOrderId takeOrderId to s of
                          Inl s1 \<Rightarrow> Some s1
                        | Inr s1 \<Rightarrow>
                            Some (finish_match cfg e l ev owner collection tokenId from to
                                    sellOrderId s1))))))"

subsection \<open>handleCancelEvent\<close>

definition cancel_activity_type :: "order_type \<Rightarrow> activity_type" where
  "cancel_activity_type t =
     (if t = ListingOrder then CancelListing
      else if t = CollectionBidOrder then CancelCollectionBid
      else CancelItemBid)"

definition cancel_activity :: "config \<Rightarrow> eth_log \<Rightarrow> order_row \<Rightarrow> 64 word \<Rightarrow> activity_row" where
  "cancel_activity cfg l cancelOrder blockTime =
     \<lparr> ActivityType = cancel_activity_type (OrderType cancelOrder),
       ActMaker = Maker cancelOrder,
       ActTaker = ZeroAddress,
       ActMarketplaceID = MarketOrderBook,
       ActCollectionAddress = CollectionAddress cancelOrder,
       ActTokenId = TokenId cancelOrder,
       ActCurrencyAddress = EthAddress cfg,
       ActPrice = Price cancelOrder,
       ActBlockNumber = int64 (BlockNumber l),
       ActTxHash = TxHash l,
       ActEventTime = int64 blockTime \<rparr>"

definition handleCancelEvent :: "config \<Rightarrow> io \<Rightarrow> eth_log \<Rightarrow> state \<Rightarrow> state option" where
  "handleCancelEvent cfg e l s =
     (if length (Topics l) < 2 then None
      else
        (let orderId = HexPrefix @ topic_hex (Topics l ! 1)
         in if fails e UpdateCancelOrder then Some s
            else
              (let s1 = update_order orderId (\<lambda>r. r\<lparr>OrderStatus := OrderStatusCancelled\<rparr>) s
               in if fails e FirstCancelOrder then Some s1
                  else
                    (case orders s1 orderId of
                       None \<Rightarrow> Some s1
                     | Some cancelOrder \<Rightarrow>
                         (case block_time e of
                            None \<Rightarrow> Some s1
                          | Some blockTime \<Rightarrow>
                              (let s2 = create_activity e
                                          (cancel_activity cfg l cancelOrder blockTime) s1
                               in Some (AddUpdatePriceEvent e
                                          \<lparr> TE_OrderId = OrderID cancelOrder,
                                            TE_CollectionAddr = CollectionAddress cancelOrder,
                                            TE_EventType = Cancel,
                                            TE_TokenID = TokenId cancelOrder,
                                            TE_From = [], TE_To = [] \<rparr> s2)))))))"

subsection \<open>SyncOrderBookEventLoop\<close>

text \<open>
  Step 7 of the loop: every log is dispatched on the text of its first topic. The clock,
  block time and failures of the \<open>i\<close>-th handler call are \<open>hio i\<close>. \<open>None\<close> is a panic
  (no first topic, or a panic of the handler).
\<close>

definition dispatch_log :: "config \<Rightarrow> io \<Rightarrow> eth_log \<Rightarrow> state \<Rightarrow> state option" where
  "dispatch_log cfg e l s =
     (case Topics l of
        [] \<Rightarrow> None
      | t # _ \<Rightarrow>
          (if Hash_String t = LogMakeTopic then handleMakeEvent cfg e l s
           else if Hash_String t = LogCancelTopic then handleCancelEvent cfg e l s
           else if Hash_String t = LogMatchTopic then handleMatchEvent cfg e l s
           else Some s))"

fun process_logs :: "config \<Rightarrow> (nat \<Rightarrow> io) \<Rightarrow> nat \<Rightarrow> eth_log list \<Rightarrow> state \<Rightarrow> state option" where
  "process_logs cfg hio i [] s = Some s"
| "process_logs cfg hio i (l # ls) s =
     (case dispatch_log cfg (hio i) l s of
        None \<Rightarrow> None
      | Some s1 \<Rightarrow> process_logs cfg hio (Suc i) ls s1)"

text \<open>
  Steps 3 and 4: the block range of the query, or \<open>None\<close> when the loop sleeps because
  there is no new block. The arithmetic is that of \<^verbatim>\<open>uint64\<close>.
\<close>

definition sync_range :: "config \<Rightarrow> 64 word \<Rightarrow> 64 word \<Rightarrow> (64 word \<times> 64 word) option" where
  "sync_range cfg currentBlockNum lastSyncBlock =
     (if lastSyncBlock > currentBlockNum - MultiChainMaxBlockDifference (chain cfg) then None
      else
        (let startBlock = lastSyncBlock;
             endBlock = startBlock + SyncBlockPeriod;
             endBlock = (if endBlock > currentBlockNum - MultiChainMaxBlockDifference (chain cfg)
                         then currentBlockNum - MultiChainMaxBlockDifference (chain cfg)
                         else endBlock)
         in Some (startBlock, endBlock)))"

text \<open>
  What the outside world answers during one iteration of the loop: whether the context
  is cancelled, the head of the chain (\<open>None\<close>: the RPC failed), the logs of a block
  range (\<open>None\<close>: the RPC failed), the answers during each handler call, and whether the
  update of \<^verbatim>\<open>last_indexed_block\<close> fails.
\<close>

record iteration =
  ctx_done :: bool
  BlockNumber_rpc :: "64 word option"
  FilterLogs_rpc :: "64 word \<Rightarrow> 64 word \<Rightarrow> eth_log list option"
  handler_io :: "nat \<Rightarrow> io"
  update_status_fails :: bool

text \<open>
  The end of one iteration: \<open>Sleep b\<close> is \<^verbatim>\<open>time.Sleep(SleepInterval * time.Second);
  continue\<close> and \<open>Next b\<close> is the end of the loop body, both with the value \<open>b\<close> of
  \<^verbatim>\<open>lastSyncBlock\<close>; \<open>Stop\<close> is \<^verbatim>\<open>return\<close>; \<open>Crash\<close> is a panic.
\<close>

datatype step = Sleep "64 word" | Next "64 word" | Stop | Crash

definition sync_iteration :: "config \<Rightarrow> iteration \<Rightarrow> 64 word \<Rightarrow> state \<Rightarrow> step \<times> state" where
  "sync_iteration cfg it lastSyncBlock s =
     (if ctx_done it then (Stop, s)
      else
        (case BlockNumber_rpc it of
           None \<Rightarrow> (Sleep lastSyncBlock, s)
         | Some currentBlockNum \<Rightarrow>
             (case sync_range cfg currentBlockNum lastSyncBlock of
                None \<Rightarrow> (Sleep lastSyncBlock, s)
              | Some (startBlock, endBlock) \<Rightarrow>
                  (case FilterLogs_rpc it startBlock endBlock of
                     None \<Rightarrow> (Sleep lastSyncBlock, s)
                   | Some logs \<Rightarrow>
                       (case process_logs cfg (handler_io it) 0 logs s of
                          None \<Rightarrow> (Crash, s)
                        | Some s1 \<Rightarrow>
                            (if update_status_fails it then (Stop, s1)
                             else (Next (endBlock + 1),
                                   s1\<lparr>last_indexed_block := endBlock + 1\<rparr>)))))))"

text \<open>
  The loop over the answers of finitely many iterations. It stops at a \<^verbatim>\<open>return\<close> or
  a panic; when the answers are used up the goroutine is still running and the state
  is the one it has reached.
\<close>

fun sync_loop :: "config \<Rightarrow> iteration list \<Rightarrow> 64 word \<Rightarrow> state \<Rightarrow> state" where
  "sync_loop cfg [] lastSyncBlock s = s"
| "sync_loop cfg (it # its) lastSyncBlock s =
     (case sync_iteration cfg it lastSyncBlock s of
        (Sleep b, s1) \<Rightarrow> sync_loop cfg its b s1
      | (Next b, s1) \<Rightarrow> sync_loop cfg its b s1
      | (Stop, s1) \<Rightarrow> s1
      | (Crash, s1) \<Rightarrow> s1)"

text \<open>
  One run of the goroutine: step 1 reads \<^verbatim>\<open>last_indexed_block\<close> from the database
  (the run ends at once when that fails), then the loop. A restart is another run on
  the state the last one left.
\<close>

record run =
  read_status_fails :: bool
  iterations :: "iteration list"

definition SyncOrderBookEventLoop :: "config \<Rightarrow> run \<Rightarrow> state \<Rightarrow> state" where
  "SyncOrderBookEventLoop cfg r s =
     (if read_status_fails r then s
      else sync_loop cfg (iterations r) (last_indexed_block s) s)"

fun restarts :: "config \<Rightarrow> run list \<Rightarrow> state \<Rightarrow> state" where
  "restarts cfg [] s = s"
| "restarts cfg (r # rs) s = restarts cfg rs (SyncOrderBookEventLoop cfg r s)"

section \<open>The order-expiry timer wheel (package ordermanager)\<close>

text \<open>
  Modelled from the spec: the timer wheel of package \<^verbatim>\<open>ordermanager\<close> of EasySwapBase
  (\<^verbatim>\<open>addToOrderExpiryCheckQueue\<close>, \<^verbatim>\<open>orderExpiryProcess\<close>), whose code is not among
  the sources. The definitions follow section 4.3 of the specification: a ring of
  \<open>WheelSize = 3600\<close> slots, each a list of nodes, and an index that advances by one
  slot per tick of one second.
\<close>

definition WheelSize :: nat where "WheelSize = 3600"

text \<open>Modelled from the spec: the ExpiryNode of section 3, a node of a slot's list.\<close>

record expiry_node =
  order_id :: string
  collection :: string
  token_id :: string
  expire_time :: int
  maker :: string
  cycle_count :: nat
  slot_index :: nat

text \<open>
  Modelled from the spec: the ring array, as the function from a slot index to the list
  of that slot; only indices below \<open>WheelSize\<close> are read or written.
\<close>

record wheel =
  slots :: "nat \<Rightarrow> expiry_node list"
  current_index :: nat

text \<open>Modelled from the spec: the fields of an order that the listing worker hands over.\<close>

record listing =
  l_order_id :: string
  l_collection :: string
  l_token_id :: string
  l_expire_time :: int
  l_maker :: string

text \<open>
  Modelled from the spec: \<^verbatim>\<open>Insert(order, expire_time)\<close> at the clock reading \<open>tnow\<close>:
  \<^verbatim>\<open>delta = max(0, expire_time - now)\<close>, \<^verbatim>\<open>cycle_count = delta / WHEEL_SIZE\<close>,
  \<^verbatim>\<open>slot = (current_index + (delta mod WHEEL_SIZE)) mod WHEEL_SIZE\<close>, and the node is
  prepended to the list of the slot.
\<close>

definition Insert :: "int \<Rightarrow> listing \<Rightarrow> wheel \<Rightarrow> wheel" where
  "Insert tnow order w =
     (let delta = nat (max 0 (l_expire_time order - tnow));
          cycle = delta div WheelSize;
          slot = (current_index w + (delta mod WheelSize)) mod WheelSize;
          node = \<lparr> order_id = l_order_id order, collection = l_collection order,
                   token_id = l_token_id order, expire_time = l_expire_time order,
                   maker = l_maker order, cycle_count = cycle, slot_index = slot \<rparr>
      in w\<lparr>slots := (slots w)(slot := node # slots w slot)\<rparr>)"









section \<open>Example inputs\<close>

text \<open>Concrete logs, answers of the outside world and states, for the instances below.\<close>

definition ex_cfg :: config where
  "ex_cfg = \<lparr> chain = ''eth'', EthAddress = ''0x0000000000000000000000000000000000000000'' \<rparr>"

definition ex_empty :: state where
  "ex_empty = \<lparr> orders = Map.empty, activities = [], items = Map.empty,
                 last_indexed_block = 0, order_queue = [], trade_events = [] \<rparr>"

definition ex_io :: io where
  "ex_io = \<lparr> now = 1700000100, block_time = Some 1700000000, fails = (\<lambda>c. False) \<rparr>"

definition ex_topic :: "string \<Rightarrow> 64 word \<Rightarrow> string \<Rightarrow> topic" where
  "ex_topic h n a = \<lparr> topic_hex = h, topic_uint64 = n, topic_address = a \<rparr>"

definition ex_make_event :: make_event where
  "ex_make_event =
     \<lparr> MkOrderKey = ''aa'',
       MkNft = \<lparr> NftTokenId = 7, NftCollectionAddr = ''0xC0llection'', NftAmount = 1 \<rparr>,
       MkPrice = 100, MkExpiry = 1700000600, MkSalt = 1 \<rparr>"

definition ex_make_log :: eth_log where
  "ex_make_log =
     \<lparr> Topics = [ex_topic ''fc37f2ff950f95913eb7182357ba3c14df60ef354bc7d6ab1ba2815f249fffe6'' 0 [], ex_topic ''00'' 0 [], ex_topic ''01'' 1 [],
                 ex_topic ''5e11e4'' 0 ''0x5E11e4''],
       Data = MakeData ex_make_event, BlockNumber = 90, TxHash = ''0x7a01'' \<rparr>"

definition ex_listing :: order_row where
  "ex_listing =
     \<lparr> CollectionAddress = ''0xC0llection'', MarketplaceId = MarketOrderBook, TokenId = ''7'',
       OrderID = ''0x51'', OrderStatus = OrderStatusActive, EventTime = 1700000000,
       ExpireTime = 0, CurrencyAddress = ''0x0000000000000000000000000000000000000000'',
       Price = 50, Maker = ''0x5E11e4'', Taker = ''0x0000000000000000000000000000000000000000'',
       QuantityRemaining = 1, Size = 1, OrderType = ListingOrder, Salt = 1 \<rparr>"

definition ex_bid :: order_row where
  "ex_bid =
     \<lparr> CollectionAddress = ''0xC0llection'', MarketplaceId = MarketOrderBook, TokenId = ''0'',
       OrderID = ''0xb1'', OrderStatus = OrderStatusActive, EventTime = 1700000000,
       ExpireTime = 0, CurrencyAddress = ''0x0000000000000000000000000000000000000000'',
       Price = 50, Maker = ''0xB1dDe4'', Taker = ''0x0000000000000000000000000000000000000000'',
       QuantityRemaining = 3, Size = 3, OrderType = CollectionBidOrder, Salt = 2 \<rparr>"

definition ex_book :: state where
  "ex_book =
     \<lparr> orders = [''0x51'' \<mapsto> ex_listing, ''0xb1'' \<mapsto> ex_bid], activities = [],
       items = [(''0xc0llection'', ''7'') \<mapsto> ''0x5e11e4''],
       last_indexed_block = 90, order_queue = [], trade_events = [] \<rparr>"

definition ex_match_event :: match_event where
  "ex_match_event =
     \<lparr> MakeOrder =
         \<lparr> Side = 0, SaleKind = 1, OMaker = ''0x5E11e4'',
           ONft = \<lparr> NftTokenId = 7, NftCollectionAddr = ''0xC0llection'', NftAmount = 1 \<rparr>,
           OPrice = 50, OExpiry = 0, OSalt = 1 \<rparr>,
       TakeOrder =
         \<lparr> Side = 1, SaleKind = 0, OMaker = ''0xB1dDe4'',
           ONft = \<lparr> NftTokenId = 0, NftCollectionAddr = ''0xC0llection'', NftAmount = 3 \<rparr>,
           OPrice = 50, OExpiry = 0, OSalt = 2 \<rparr>,
       FillPrice = 50 \<rparr>"

definition ex_match_log :: eth_log where
  "ex_match_log =
     \<lparr> Topics = [ex_topic ''f629aecab94607bc43ce4aebd564bf6e61c7327226a797b002de724b9944b20e'' 0 [],
                 ex_topic ''51'' 0 [], ex_topic ''b1'' 0 []],
       Data = MatchData ex_match_event, BlockNumber = 95, TxHash = ''0x7a02'' \<rparr>"

definition ex_listing_only :: state where
  "ex_listing_only =
     \<lparr> orders = [''0x51'' \<mapsto> ex_listing], activities = [],
       items = [(''0xc0llection'', ''7'') \<mapsto> ''0x5e11e4''],
       last_indexed_block = 90, order_queue = [], trade_events = [] \<rparr>"

definition ex_cancel_log :: eth_log where
  "ex_cancel_log =
     \<lparr> Topics = [ex_topic ''0ac8bb53fac566d7afc05d8b4df11d7690a7b27bdc40b54e4060f9b21fb849bd'' 0 [],
                 ex_topic ''51'' 0 [], ex_topic ''5e11e4'' 0 ''0x5E11e4''],
       Data = OtherData, BlockNumber = 96, TxHash = ''0x7a03'' \<rparr>"

definition ex_filled :: state where
  "ex_filled =
     \<lparr> orders = [''0x51'' \<mapsto> ex_listing\<lparr>OrderStatus := OrderStatusFilled,
                                         QuantityRemaining := 0\<rparr>],
       activities = [], items = Map.empty,
       last_indexed_block = 90, order_queue = [], trade_events = [] \<rparr>"

definition ex_cancelled :: state where
  "ex_cancelled =
     \<lparr> orders = [''0x51'' \<mapsto> ex_listing\<lparr>OrderStatus := OrderStatusCancelled\<rparr>],
       activities = [], items = Map.empty,
       last_indexed_block = 90, order_queue = [], trade_events = [] \<rparr>"

definition ex_io_db_down :: io where
  "ex_io_db_down = \<lparr> now = 1700000100, block_time = Some 1700000000, fails = (\<lambda>c. True) \<rparr>"

definition ex_at_90 :: state where
  "ex_at_90 = \<lparr> orders = Map.empty, activities = [], items = Map.empty,
                 last_indexed_block = 90, order_queue = [], trade_events = [] \<rparr>"

definition ex_iteration :: iteration where
  "ex_iteration =
     \<lparr> ctx_done = False, BlockNumber_rpc = Some 100,
       FilterLogs_rpc = (\<lambda>a b. Some [ex_make_log]),
       handler_io = (\<lambda>i. ex_io_db_down), update_status_fails = False \<rparr>"

definition ex_run :: run where
  "ex_run = \<lparr> read_status_fails = False, iterations = [ex_iteration] \<rparr>"



definition ex_big_bid_event :: make_event where
  "ex_big_bid_event =
     \<lparr> MkOrderKey = ''b9'',
       MkNft = \<lparr> NftTokenId = 0, NftCollectionAddr = ''0xC0llection'',
                 NftAmount = 9223372036854775808 \<rparr>,
       MkPrice = 1, MkExpiry = 0, MkSalt = 3 \<rparr>"

definition ex_big_bid_log :: eth_log where
  "ex_big_bid_log =
     \<lparr> Topics = [ex_topic ''fc37f2ff950f95913eb7182357ba3c14df60ef354bc7d6ab1ba2815f249fffe6'' 0 [],
                 ex_topic ''01'' 1 [], ex_topic ''00'' 0 [],
                 ex_topic ''b1dde4'' 0 ''0xB1dDe4''],
       Data = MakeData ex_big_bid_event, BlockNumber = 91, TxHash = ''0x7a04'' \<rparr>"

definition ex_take_list_event :: match_event where
  "ex_take_list_event =
     \<lparr> MakeOrder =
         \<lparr> Side = 1, SaleKind = 1, OMaker = ''0xB1dDe4'',
           ONft = \<lparr> NftTokenId = 7, NftCollectionAddr = ''0xC0llection'', NftAmount = 1 \<rparr>,
           OPrice = 50, OExpiry = 0, OSalt = 4 \<rparr>,
       TakeOrder =
         \<lparr> Side = 0, SaleKind = 1, OMaker = ''0x5E11e4'',
           ONft = \<lparr> NftTokenId = 7, NftCollectionAddr = ''0xC0llection'', NftAmount = 1 \<rparr>,
           OPrice = 50, OExpiry = 0, OSalt = 1 \<rparr>,
       FillPrice = 50 \<rparr>"

definition ex_take_list_log :: eth_log where
  "ex_take_list_log =
     \<lparr> Topics = [ex_topic ''f629aecab94607bc43ce4aebd564bf6e61c7327226a797b002de724b9944b20e'' 0 [],
                 ex_topic ''b2'' 0 [], ex_topic ''51'' 0 []],
       Data = MatchData ex_take_list_event, BlockNumber = 97, TxHash = ''0x7a05'' \<rparr>"






section \<open>Properties of the handlers\<close>

subsection \<open>Auxiliary facts\<close>

lemma BigInt_Int64_small: "n < 2 ^ 63 \<Longrightarrow> BigInt_Int64 n = int n"
  unfolding BigInt_Int64_def
  by (simp add: signed_of_nat signed_take_bit_int_eq_self)

lemma make_order_type_cases:
  "(side = List \<longrightarrow> make_order_type side sk = ListingOrder) \<and>
   (side = Bid \<and> sk = FixForCollection \<longrightarrow> make_order_type side sk = CollectionBidOrder) \<and>
   (side = Bid \<and> sk = FixForItem \<longrightarrow> make_order_type side sk = ItemBidOrder)"
  by (simp add: make_order_type_def List_def Bid_def FixForCollection_def FixForItem_def)

lemma orders_create_activity [simp]: "orders (create_activity e a s) = orders s"
  by (simp add: create_activity_def)

lemma orders_AddToOrderManagerQueue [simp]: "orders (AddToOrderManagerQueue e q s) = orders s"
  by (simp add: AddToOrderManagerQueue_def)

lemma orders_AddUpdatePriceEvent [simp]: "orders (AddUpdatePriceEvent e t s) = orders s"
  by (simp add: AddUpdatePriceEvent_def)

lemma orders_create_order:
  "orders (create_order e r s) =
     (if fails e CreateOrder \<or> orders s (OrderID r) \<noteq> None then orders s
      else (orders s)(OrderID r \<mapsto> r))"
  by (auto simp: create_order_def split: option.splits)

lemma handleMakeEvent_orders:
  assumes "Unpack_LogMake (Data l) = Some ev" and "4 \<le> length (Topics l)"
  shows "\<exists>s'. handleMakeEvent cfg e l s = Some s' \<and>
           orders s' = orders (create_order e (make_newOrder cfg e l ev) s)"
  using assms by (simp add: handleMakeEvent_def Let_def split: option.splits)

subsection \<open>Make events\<close>

lemmas make_defs = handleMakeEvent_def make_newOrder_def make_newActivity_def make_queued_def
  create_order_def create_activity_def AddToOrderManagerQueue_def Unpack_LogMake_def
  make_order_type_def make_activity_type_def activity_conflict_def

text \<open>
  Claim C8, as stated, fails: the amount of the ABI is a 96-bit unsigned integer and the
  handler stores \<^verbatim>\<open>Amount.Int64()\<close>. A collection bid for \<open>2^63\<close> units is stored with
  \<^verbatim>\<open>quantity_remaining = size = -(2^63)\<close>.
\<close>

theorem make_amount_truncated_counterexample:
  "NftAmount (MkNft ex_big_bid_event) = 2 ^ 63 \<and>
   map_option (\<lambda>s'. map_option (\<lambda>r. (OrderType r, QuantityRemaining r, Size r)) (orders s' ''0xb9''))
     (handleMakeEvent ex_cfg ex_io ex_big_bid_log ex_empty) =
     Some (Some (CollectionBidOrder, - (2 ^ 63), - (2 ^ 63)))"
  by (simp add: ex_cfg_def ex_io_def ex_empty_def ex_big_bid_log_def ex_big_bid_event_def
      ex_topic_def make_defs BigInt_Int64_def HexPrefix_def Bid_def FixForCollection_def Let_def)

text \<open>
  Claim C8, amended. For a Make event that decodes, when the insert does not fail, every
  other order row is left as it is and the insert is an insert-or-ignore on
  \<^verbatim>\<open>order_id\<close>: a row that is already there stays unchanged, and otherwise the new row
  has status Active, the order type Listing for side List, CollectionBid for side Bid
  with sale kind FixForCollection and ItemBid for side Bid with sale kind FixForItem,
  and \<^verbatim>\<open>quantity_remaining = size =\<close> the amount of the event read by
  \<^verbatim>\<open>big.Int.Int64\<close> (its low 64 bits as a signed integer), which is the amount itself
  when that is below \<open>2^63\<close>.
\<close>

theorem handleMakeEvent_classifies_and_inserts:
  assumes dec: "Unpack_LogMake (Data l) = Some ev"
    and len: "4 \<le> length (Topics l)"
    and ok: "\<not> fails e CreateOrder"
  shows "\<exists>s'. handleMakeEvent cfg e l s = Some s' \<and>
           (\<forall>k. k \<noteq> HexPrefix @ MkOrderKey ev \<longrightarrow> orders s' k = orders s k) \<and>
           (case orders s (HexPrefix @ MkOrderKey ev) of
              Some old \<Rightarrow> orders s' (HexPrefix @ MkOrderKey ev) = Some old
            | None \<Rightarrow>
                (\<exists>r. orders s' (HexPrefix @ MkOrderKey ev) = Some r \<and>
                     OrderID r = HexPrefix @ MkOrderKey ev \<and>
                     OrderStatus r = OrderStatusActive \<and>
                     QuantityRemaining r = BigInt_Int64 (NftAmount (MkNft ev)) \<and>
                     Size r = BigInt_Int64 (NftAmount (MkNft ev)) \<and>
                     (NftAmount (MkNft ev) < 2 ^ 63 \<longrightarrow>
                        QuantityRemaining r = int (NftAmount (MkNft ev)) \<and>
                        Size r = int (NftAmount (MkNft ev))) \<and>
                     (let side = (ucast (topic_uint64 (Topics l ! 1)) :: 8 word);
                          saleKind = (ucast (topic_uint64 (Topics l ! 2)) :: 8 word)
                      in (side = List \<longrightarrow> OrderType r = ListingOrder) \<and>
                         (side = Bid \<and> saleKind = FixForCollection \<longrightarrow>
                            OrderType r = CollectionBidOrder) \<and>
                         (side = Bid \<and> saleKind = FixForItem \<longrightarrow>
                            OrderType r = ItemBidOrder))))"
proof -
  let ?r = "make_newOrder cfg e l ev"
  have id: "OrderID ?r = HexPrefix @ MkOrderKey ev"
    by (simp add: make_newOrder_def Let_def)
  obtain s' where h: "handleMakeEvent cfg e l s = Some s'"
    and o: "orders s' = orders (create_order e ?r s)"
    using handleMakeEvent_orders [OF dec len] by blast
  have fields: "OrderStatus ?r = OrderStatusActive"
    "QuantityRemaining ?r = BigInt_Int64 (NftAmount (MkNft ev))"
    "Size ?r = BigInt_Int64 (NftAmount (MkNft ev))"
    "OrderType ?r = make_order_type (ucast (topic_uint64 (Topics l ! 1)))
                      (ucast (topic_uint64 (Topics l ! 2)))"
    by (simp_all add: make_newOrder_def Let_def)
  show ?thesis
    using h o ok id fields make_order_type_cases BigInt_Int64_small
    by (auto simp: orders_create_order Let_def split: option.splits)
qed

text \<open>The listing of scenario S1 (price 100, amount 1), on an empty orders table.\<close>

theorem handleMakeEvent_classifies_and_inserts_witness:
  "\<exists>s' r. handleMakeEvent ex_cfg ex_io ex_make_log ex_empty = Some s' \<and>
          orders s' ''0xaa'' = Some r \<and> OrderStatus r = OrderStatusActive \<and>
          QuantityRemaining r = 1 \<and> Size r = 1 \<and> OrderType r = ListingOrder"
proof -
  have dec: "Unpack_LogMake (Data ex_make_log) = Some ex_make_event"
    by (simp add: ex_make_log_def Unpack_LogMake_def)
  have len: "4 \<le> length (Topics ex_make_log)"
    by (simp add: ex_make_log_def)
  have ok: "\<not> fails ex_io CreateOrder"
    by (simp add: ex_io_def)
  have new: "orders ex_empty (HexPrefix @ MkOrderKey ex_make_event) = None"
    by (simp add: ex_empty_def)
  have side: "(ucast (topic_uint64 (Topics ex_make_log ! 1)) :: 8 word) = List"
    by (simp add: ex_make_log_def ex_topic_def List_def)
  have key: "HexPrefix @ MkOrderKey ex_make_event = ''0xaa''"
    by (simp add: HexPrefix_def ex_make_event_def)
  show ?thesis
    using handleMakeEvent_classifies_and_inserts [OF dec len ok, of ex_cfg ex_empty]
      new side
    by (auto simp: Let_def ex_make_event_def HexPrefix_def)
qed

lemma activities_create_order [simp]: "activities (create_order e r s) = activities s"
  by (simp add: create_order_def split: option.splits)

lemma activities_AddToOrderManagerQueue [simp]:
  "activities (AddToOrderManagerQueue e q s) = activities s"
  by (simp add: AddToOrderManagerQueue_def)



subsection \<open>Match events\<close>

lemma orders_update_order:
  "orders (update_order oid f s) k =
     (if k = oid then map_option f (orders s oid) else orders s k)"
  by (simp add: update_order_def split: option.splits)

lemma items_update_order [simp]: "items (update_order oid f s) = items s"
  by (simp add: update_order_def split: option.splits)

lemma activities_update_order [simp]: "activities (update_order oid f s) = activities s"
  by (simp add: update_order_def split: option.splits)

lemma trade_events_update_order [simp]: "trade_events (update_order oid f s) = trade_events s"
  by (simp add: update_order_def split: option.splits)

lemma order_queue_update_order [simp]: "order_queue (update_order oid f s) = order_queue s"
  by (simp add: update_order_def split: option.splits)

lemma cursor_update_order [simp]:
  "last_indexed_block (update_order oid f s) = last_indexed_block s"
  by (simp add: update_order_def split: option.splits)

lemma orders_update_item_owner [simp]: "orders (update_item_owner c t ow s) = orders s"
  by (simp add: update_item_owner_def split: option.splits)

lemma items_update_item_owner:
  "items (update_item_owner c t ow s) k =
     (if k = (c, t) then map_option (\<lambda>_. ow) (items s (c, t)) else items s k)"
  by (simp add: update_item_owner_def split: option.splits)

lemma items_create_activity [simp]: "items (create_activity e a s) = items s"
  by (simp add: create_activity_def)

lemma items_AddUpdatePriceEvent [simp]: "items (AddUpdatePriceEvent e t s) = items s"
  by (simp add: AddUpdatePriceEvent_def)

lemma fill_orders_Inr:
  assumes "\<not> fails e UpdateSellOrder" "\<not> fails e FirstBuyOrder" "\<not> fails e UpdateBuyOrder"
    and "sellId \<noteq> buyId" and "orders s buyId = Some b"
  shows "\<exists>s1. fill_orders e sellId buyId to s = Inr s1 \<and>
           items s1 = items s \<and>
           orders s1 sellId =
             map_option (\<lambda>r. r\<lparr>OrderStatus := OrderStatusFilled, QuantityRemaining := 0,
                                Taker := to\<rparr>) (orders s sellId) \<and>
           orders s1 buyId =
             Some (if QuantityRemaining b > 1
                   then b\<lparr>QuantityRemaining := QuantityRemaining b - 1\<rparr>
                   else b\<lparr>OrderStatus := OrderStatusFilled, QuantityRemaining := 0\<rparr>)"
  using assms by (simp add: fill_orders_def Let_def orders_update_order)

lemma finish_match_orders [simp]:
  "orders (finish_match cfg e l ev ow c t f to sid s) = orders s"
  by (simp add: finish_match_def Let_def split: option.splits)

lemma finish_match_items:
  assumes "\<not> fails e UpdateItemOwner" and "block_time e = Some blockTime"
  shows "items (finish_match cfg e l ev ow c t f to sid s) (ToLower c, t) =
           map_option (\<lambda>_. ow) (items s (ToLower c, t))"
  using assms by (simp add: finish_match_def Let_def items_update_item_owner)

text \<open>
  The handler on a Match event whose buy order is a row of the orders table. The sell
  order is the take order when the make order has side Bid and the make order
  otherwise; the buyer is the maker of the other order. When the buy order is stored
  under an id other than the sell order's, the block time is read and the four database
  calls on the way return no error, the handler sets the sell order (when it is a row)
  to Filled with \<^verbatim>\<open>quantity_remaining = 0\<close> and the buyer as taker; a buy order with
  \<^verbatim>\<open>quantity_remaining > 1\<close> has it reduced by exactly one and every other column,
  the status among them, left as it is, and any other buy order is set to Filled with
  \<^verbatim>\<open>quantity_remaining = 0\<close>; and the owner of the item row of the lower-cased
  collection and the token id of the sell order (when there is such a row) is the
  lower-cased address of the buyer.
\<close>

lemma handleMatchEvent_known_buy_order:
  assumes dec: "Unpack_LogMatch (Data l) = Some ev"
    and len: "3 \<le> length (Topics l)"
    and sell: "sellOrder = (if Side (MakeOrder ev) = Bid then TakeOrder ev else MakeOrder ev)"
    and buy: "buyOrder = (if Side (MakeOrder ev) = Bid then MakeOrder ev else TakeOrder ev)"
    and sid: "sellId = HexPrefix @ topic_hex (Topics l ! (if Side (MakeOrder ev) = Bid then 2 else 1))"
    and bid: "buyId = HexPrefix @ topic_hex (Topics l ! (if Side (MakeOrder ev) = Bid then 1 else 2))"
    and distinct: "sellId \<noteq> buyId"
    and present: "orders s buyId = Some b"
    and ok: "\<not> fails e UpdateSellOrder" "\<not> fails e FirstBuyOrder" "\<not> fails e UpdateBuyOrder"
            "\<not> fails e UpdateItemOwner"
    and bt: "block_time e = Some blockTime"
    and item: "item = (ToLower (NftCollectionAddr (ONft sellOrder)),
                       BigInt_String (NftTokenId (ONft sellOrder)))"
  shows "\<exists>s'. handleMatchEvent cfg e l s = Some s' \<and>
           orders s' sellId =
             map_option (\<lambda>r. r\<lparr>OrderStatus := OrderStatusFilled, QuantityRemaining := 0,
                                Taker := OMaker buyOrder\<rparr>) (orders s sellId) \<and>
           orders s' buyId =
             Some (if QuantityRemaining b > 1
                   then b\<lparr>QuantityRemaining := QuantityRemaining b - 1\<rparr>
                   else b\<lparr>OrderStatus := OrderStatusFilled, QuantityRemaining := 0\<rparr>) \<and>
           items s' item = map_option (\<lambda>_. ToLower (OMaker buyOrder)) (items s item)"
proof (cases "Side (MakeOrder ev) = Bid")
  case True
  obtain s1 where f: "fill_orders e sellId buyId (OMaker buyOrder) s = Inr s1"
    and i: "items s1 = items s"
    and os: "orders s1 sellId =
             map_option (\<lambda>r. r\<lparr>OrderStatus := OrderStatusFilled, QuantityRemaining := 0,
                                Taker := OMaker buyOrder\<rparr>) (orders s sellId)"
    and ob: "orders s1 buyId =
             Some (if QuantityRemaining b > 1
                   then b\<lparr>QuantityRemaining := QuantityRemaining b - 1\<rparr>
                   else b\<lparr>OrderStatus := OrderStatusFilled, QuantityRemaining := 0\<rparr>)"
    using fill_orders_Inr [OF ok(1-3) distinct present] by blast
  show ?thesis
    using True dec len f i os ob sell buy sid bid item finish_match_items [OF ok(4) bt]
    by (simp add: handleMatchEvent_def Let_def)
next
  case False
  obtain s1 where f: "fill_orders e sellId buyId (OMaker buyOrder) s = Inr s1"
    and i: "items s1 = items s"
    and os: "orders s1 sellId =
             map_option (\<lambda>r. r\<lparr>OrderStatus := OrderStatusFilled, QuantityRemaining := 0,
                                Taker := OMaker buyOrder\<rparr>) (orders s sellId)"
    and ob: "orders s1 buyId =
             Some (if QuantityRemaining b > 1
                   then b\<lparr>QuantityRemaining := QuantityRemaining b - 1\<rparr>
                   else b\<lparr>OrderStatus := OrderStatusFilled, QuantityRemaining := 0\<rparr>)"
    using fill_orders_Inr [OF ok(1-3) distinct present] by blast
  show ?thesis
    using False dec len f i os ob sell buy sid bid item finish_match_items [OF ok(4) bt]
    by (simp add: handleMatchEvent_def Let_def)
qed

text \<open>
  Scenario S3: the seller accepts a collection bid of size 3. The listing ends Filled
  with the bidder as taker, the bid keeps status Active with two units left, and the
  item belongs to the lower-cased bidder.
\<close>

lemmas ex_defs = ex_cfg_def ex_io_def ex_topic_def ex_listing_def ex_bid_def ex_book_def
  ex_match_event_def ex_match_log_def

lemmas code_defs = handleMatchEvent_def fill_orders_def finish_match_def update_order_def
  update_item_owner_def create_activity_def AddUpdatePriceEvent_def sale_activity_def
  Unpack_LogMatch_def HexPrefix_def Bid_def ToLower_def lower_char_def BigInt_String.simps
  activity_conflict_def Let_def

lemma handleMatchEvent_scenario_S3:
  "\<exists>s'. handleMatchEvent ex_cfg ex_io ex_match_log ex_book = Some s' \<and>
      orders s' ''0x51'' =
        Some (ex_listing\<lparr>OrderStatus := OrderStatusFilled, QuantityRemaining := 0,
                          Taker := ''0xB1dDe4''\<rparr>) \<and>
      orders s' ''0xb1'' = Some (ex_bid\<lparr>QuantityRemaining := 2\<rparr>) \<and>
      items s' (''0xc0llection'', ''7'') = Some ''0xb1dde4''"
proof -
  have dec: "Unpack_LogMatch (Data ex_match_log) = Some ex_match_event"
    by (simp add: ex_match_log_def Unpack_LogMatch_def)
  have len: "3 \<le> length (Topics ex_match_log)"
    by (simp add: ex_match_log_def)
  have side: "Side (MakeOrder ex_match_event) \<noteq> Bid"
    by (simp add: ex_match_event_def Bid_def)
  have sell: "MakeOrder ex_match_event =
      (if Side (MakeOrder ex_match_event) = Bid then TakeOrder ex_match_event
       else MakeOrder ex_match_event)"
    using side by simp
  have buy: "TakeOrder ex_match_event =
      (if Side (MakeOrder ex_match_event) = Bid then MakeOrder ex_match_event
       else TakeOrder ex_match_event)"
    using side by simp
  have sid: "''0x51'' = HexPrefix @ topic_hex (Topics ex_match_log !
      (if Side (MakeOrder ex_match_event) = Bid then 2 else 1))"
    using side by (simp add: ex_match_log_def ex_topic_def HexPrefix_def)
  have bid: "''0xb1'' = HexPrefix @ topic_hex (Topics ex_match_log !
      (if Side (MakeOrder ex_match_event) = Bid then 1 else 2))"
    using side by (simp add: ex_match_log_def ex_topic_def HexPrefix_def)
  have distinct: "''0x51'' \<noteq> ''0xb1''"
    by simp
  have present: "orders ex_book ''0xb1'' = Some ex_bid"
    by (simp add: ex_book_def)
  have ok: "\<not> fails ex_io UpdateSellOrder" "\<not> fails ex_io FirstBuyOrder"
    "\<not> fails ex_io UpdateBuyOrder" "\<not> fails ex_io UpdateItemOwner"
    by (simp_all add: ex_io_def)
  have bt: "block_time ex_io = Some 1700000000"
    by (simp add: ex_io_def)
  have item: "(''0xc0llection'', ''7'') =
      (ToLower (NftCollectionAddr (ONft (MakeOrder ex_match_event))),
       BigInt_String (NftTokenId (ONft (MakeOrder ex_match_event))))"
    by (simp add: ex_match_event_def ToLower_def lower_char_def BigInt_String.simps)
  have low: "ToLower (OMaker (TakeOrder ex_match_event)) = ''0xb1dde4''"
    by (simp add: ex_match_event_def ToLower_def lower_char_def)
  have qr: "QuantityRemaining ex_bid = 3"
    by (simp add: ex_bid_def)
  show ?thesis
    using handleMatchEvent_known_buy_order
      [OF dec len sell buy sid bid distinct present ok bt item, of ex_cfg] low qr
    by (simp add: ex_book_def ex_match_event_def)
qed

text \<open>
  Claim C1. A buyer who takes a listing directly has no order of his own in the orders
  table: the contract emits LogMatch with the buy order as make order (side Bid), and
  no LogMake was ever emitted for it. With every database call succeeding, the handler
  sets the listing to Filled, then returns at the lookup of the buy order: the item
  keeps the seller as owner, and neither a Sale activity nor a trade event is written.
\<close>

theorem match_take_list_owner_not_updated:
  "orders ex_listing_only ''0xb2'' = None \<and>
   (\<forall>c. \<not> fails ex_io c) \<and>
   map_option
     (\<lambda>s'. (map_option OrderStatus (orders s' ''0x51''), items s' (''0xc0llection'', ''7''),
            activities s', trade_events s'))
     (handleMatchEvent ex_cfg ex_io ex_take_list_log ex_listing_only) =
     Some (Some OrderStatusFilled, Some ''0x5e11e4'', [], [])"
  by (simp add: ex_defs ex_listing_only_def ex_take_list_log_def ex_take_list_event_def code_defs)

text \<open>
  Claim C3. Handling the same Match log a second time is not absorbed: the bid of
  scenario S3 has two units left after the batch is processed once and one unit left
  after it is processed again on the state the first pass produced. The decrement reads
  the stored quantity and writes it reduced by one, with no record of the log having been
  applied, while the inserts around it are insert-or-ignore.
\<close>

theorem replayed_match_decrements_again:
  "map_option (\<lambda>s. map_option QuantityRemaining (orders s ''0xb1''))
     (process_logs ex_cfg (\<lambda>i. ex_io) 0 [ex_match_log] ex_book) = Some (Some 2) \<and>
   map_option (\<lambda>s. map_option QuantityRemaining (orders s ''0xb1''))
     (Option.bind (process_logs ex_cfg (\<lambda>i. ex_io) 0 [ex_match_log] ex_book)
        (process_logs ex_cfg (\<lambda>i. ex_io) 0 [ex_match_log])) = Some (Some 1)"
  by (simp add: dispatch_log_def Hash_String_def LogMakeTopic_def LogCancelTopic_def
      LogMatchTopic_def ex_defs code_defs)





subsection \<open>Cancel events\<close>

lemmas cancel_defs = handleCancelEvent_def update_order_def create_activity_def
  AddUpdatePriceEvent_def cancel_activity_def cancel_activity_type_def HexPrefix_def
  activity_conflict_def Let_def

text \<open>
  Claim C2, as stated, fails: a Cancel event for a Filled order overwrites its status
  with Cancelled.
\<close>

theorem cancel_overwrites_filled_counterexample:
  "map_option OrderStatus (orders ex_filled ''0x51'') = Some OrderStatusFilled \<and>
   map_option (\<lambda>s'. map_option OrderStatus (orders s' ''0x51''))
     (handleCancelEvent ex_cfg ex_io ex_cancel_log ex_filled) = Some (Some OrderStatusCancelled)"
  by (simp add: ex_defs ex_filled_def ex_cancel_log_def cancel_defs)

lemma handleCancelEvent_orders:
  assumes "2 \<le> length (Topics l)"
  shows "\<exists>s'. handleCancelEvent cfg e l s = Some s' \<and>
           orders s' =
             (if fails e UpdateCancelOrder then orders s
              else orders (update_order (HexPrefix @ topic_hex (Topics l ! 1))
                             (\<lambda>r. r\<lparr>OrderStatus := OrderStatusCancelled\<rparr>) s))"
  using assms by (simp add: handleCancelEvent_def Let_def split: option.splits)

text \<open>
  Claim C2, amended. A Cancel event changes no order row but the one it names, and of
  that row only the status, which it sets to Cancelled whatever it was (unless the update
  fails, which leaves the row as it is). For an order that is already Cancelled the
  orders table after the event is the table before it.
\<close>

theorem handleCancelEvent_sets_status_only:
  assumes len: "2 \<le> length (Topics l)"
    and oid: "orderId = HexPrefix @ topic_hex (Topics l ! 1)"
  shows "\<exists>s'. handleCancelEvent cfg e l s = Some s' \<and>
           (\<forall>k. k \<noteq> orderId \<longrightarrow> orders s' k = orders s k) \<and>
           orders s' orderId =
             (if fails e UpdateCancelOrder then orders s orderId
              else map_option (\<lambda>r. r\<lparr>OrderStatus := OrderStatusCancelled\<rparr>) (orders s orderId)) \<and>
           (\<forall>r. orders s orderId = Some r \<and> OrderStatus r = OrderStatusCancelled \<longrightarrow>
                orders s' = orders s)"
proof -
  obtain s' where h: "handleCancelEvent cfg e l s = Some s'"
    and o: "orders s' =
             (if fails e UpdateCancelOrder then orders s
              else orders (update_order orderId
                             (\<lambda>r. r\<lparr>OrderStatus := OrderStatusCancelled\<rparr>) s))"
    using handleCancelEvent_orders [OF len] oid by blast
  have "orders s' = orders s" if "orders s orderId = Some r" "OrderStatus r = OrderStatusCancelled" for r
  proof -
    have "r\<lparr>OrderStatus := OrderStatusCancelled\<rparr> = r"
      using that(2) by simp
    then show ?thesis
      using o that(1) by (auto simp: fun_eq_iff orders_update_order)
  qed
  then show ?thesis
    using h o by (auto simp: orders_update_order)
qed

theorem handleCancelEvent_sets_status_only_witness:
  "(\<exists>s'. handleCancelEvent ex_cfg ex_io ex_cancel_log ex_cancelled = Some s' \<and>
         orders s' = orders ex_cancelled) \<and>
   (\<exists>s'. handleCancelEvent ex_cfg ex_io ex_cancel_log ex_filled = Some s' \<and>
         orders s' ''0x51'' =
           Some (ex_listing\<lparr>OrderStatus := OrderStatusCancelled, QuantityRemaining := 0\<rparr>))"
proof -
  have len: "2 \<le> length (Topics ex_cancel_log)"
    by (simp add: ex_cancel_log_def)
  have oid: "''0x51'' = HexPrefix @ topic_hex (Topics ex_cancel_log ! 1)"
    by (simp add: ex_cancel_log_def ex_topic_def HexPrefix_def)
  have ok: "\<not> fails ex_io UpdateCancelOrder"
    by (simp add: ex_io_def)
  have c: "orders ex_cancelled ''0x51'' = Some (ex_listing\<lparr>OrderStatus := OrderStatusCancelled\<rparr>)"
    by (simp add: ex_cancelled_def)
  have f: "orders ex_filled ''0x51'' =
      Some (ex_listing\<lparr>OrderStatus := OrderStatusFilled, QuantityRemaining := 0\<rparr>)"
    by (simp add: ex_filled_def)
  have 1: "\<exists>s'. handleCancelEvent ex_cfg ex_io ex_cancel_log ex_cancelled = Some s' \<and>
         orders s' = orders ex_cancelled"
    using handleCancelEvent_sets_status_only [OF len oid, of ex_cfg ex_io ex_cancelled] c
    by auto
  have 2: "\<exists>s'. handleCancelEvent ex_cfg ex_io ex_cancel_log ex_filled = Some s' \<and>
         orders s' ''0x51'' =
           Some (ex_listing\<lparr>OrderStatus := OrderStatusCancelled, QuantityRemaining := 0\<rparr>)"
    using handleCancelEvent_sets_status_only [OF len oid, of ex_cfg ex_io ex_filled] f ok
    by auto
  show ?thesis using 1 2 by blast
qed

subsection \<open>The polling loop\<close>

lemma cursor_create_order [simp]:
  "last_indexed_block (create_order e r s) = last_indexed_block s"
  by (simp add: create_order_def split: option.splits)

lemma cursor_create_activity [simp]:
  "last_indexed_block (create_activity e a s) = last_indexed_block s"
  by (simp add: create_activity_def)

lemma cursor_AddToOrderManagerQueue [simp]:
  "last_indexed_block (AddToOrderManagerQueue e q s) = last_indexed_block s"
  by (simp add: AddToOrderManagerQueue_def)

lemma cursor_AddUpdatePriceEvent [simp]:
  "last_indexed_block (AddUpdatePriceEvent e t s) = last_indexed_block s"
  by (simp add: AddUpdatePriceEvent_def)

lemma cursor_update_item_owner [simp]:
  "last_indexed_block (update_item_owner c t ow s) = last_indexed_block s"
  by (simp add: update_item_owner_def split: option.splits)

lemma cursor_fill_orders:
  "fill_orders e a b to s = Inl s1 \<Longrightarrow> last_indexed_block s1 = last_indexed_block s"
  "fill_orders e a b to s = Inr s1 \<Longrightarrow> last_indexed_block s1 = last_indexed_block s"
  by (auto simp: fill_orders_def Let_def split: if_splits option.splits)

lemma cursor_finish_match [simp]:
  "last_indexed_block (finish_match cfg e l ev ow c t f to sid s) = last_indexed_block s"
  by (simp add: finish_match_def Let_def split: option.splits)

lemma cursor_handleMakeEvent:
  "handleMakeEvent cfg e l s = Some s' \<Longrightarrow> last_indexed_block s' = last_indexed_block s"
  by (auto simp: handleMakeEvent_def Let_def split: option.splits if_splits)

lemma cursor_handleCancelEvent:
  "handleCancelEvent cfg e l s = Some s' \<Longrightarrow> last_indexed_block s' = last_indexed_block s"
  by (auto simp: handleCancelEvent_def Let_def split: option.splits if_splits)

lemma cursor_handleMatchEvent:
  "handleMatchEvent cfg e l s = Some s' \<Longrightarrow> last_indexed_block s' = last_indexed_block s"
  by (auto simp: handleMatchEvent_def Let_def cursor_fill_orders
      split: option.splits if_splits sum.splits)

lemma cursor_dispatch_log:
  "dispatch_log cfg e l s = Some s' \<Longrightarrow> last_indexed_block s' = last_indexed_block s"
  by (auto simp: dispatch_log_def cursor_handleMakeEvent cursor_handleCancelEvent
      cursor_handleMatchEvent split: list.splits if_splits)

lemma cursor_process_logs:
  "process_logs cfg hio i ls s = Some s' \<Longrightarrow> last_indexed_block s' = last_indexed_block s"
proof (induction ls arbitrary: i s)
  case Nil
  then show ?case by simp
next
  case (Cons l ls)
  then show ?case
    by (auto split: option.splits dest: cursor_dispatch_log)
qed

lemma sync_range_start:
  "sync_range cfg h lastSync = Some (a, b) \<Longrightarrow> a = lastSync"
  by (auto simp: sync_range_def Let_def split: if_splits)

lemma sync_range_end_bounds:
  assumes r: "sync_range cfg h lastSync = Some (a, b)"
    and no: "unat lastSync + 10 < 2 ^ 64"
  shows "unat lastSync \<le> unat b \<and> unat b \<le> unat lastSync + 10"
proof -
  let ?x = "h - MultiChainMaxBlockDifference (chain cfg)"
  have le: "lastSync \<le> ?x"
    using r by (auto simp: sync_range_def Let_def split: if_splits)
  have u: "unat (lastSync + 10) = unat lastSync + 10"
    using no by (simp add: unat_add_lem [THEN iffD1])
  show ?thesis
  proof (cases "lastSync + 10 > ?x")
    case True
    then have "b = ?x"
      using r by (auto simp: sync_range_def Let_def SyncBlockPeriod_def split: if_splits)
    moreover have "unat ?x < unat lastSync + 10"
      using True u by (simp add: word_less_nat_alt)
    moreover have "unat lastSync \<le> unat ?x"
      using le by (simp add: word_le_nat_alt)
    ultimately show ?thesis by simp
  next
    case False
    then have "b = lastSync + 10"
      using r by (auto simp: sync_range_def Let_def SyncBlockPeriod_def split: if_splits)
    then show ?thesis using u by simp
  qed
qed

lemma sync_range_spec:
  assumes d: "unat (MultiChainMaxBlockDifference (chain cfg)) \<le> unat h"
    and no: "unat lastSync + 10 < 2 ^ 64"
  shows "sync_range cfg h lastSync =
           (if unat lastSync > unat h - unat (MultiChainMaxBlockDifference (chain cfg)) then None
            else Some (lastSync, word_of_nat (min (unat h - unat (MultiChainMaxBlockDifference (chain cfg)))
                                   (unat lastSync + 10))))"
proof -
  let ?d = "MultiChainMaxBlockDifference (chain cfg)"
  have x: "unat (h - ?d) = unat h - unat ?d"
    using d by (simp add: unat_sub word_le_nat_alt)
  have u: "unat (lastSync + 10) = unat lastSync + 10"
    using no by (simp add: unat_add_lem [THEN iffD1])
  have a: "word_of_nat (unat h - unat ?d) = h - ?d"
    by (simp flip: x)
  have b: "(word_of_nat (unat lastSync + 10) :: 64 word) = lastSync + 10"
    by simp
  show ?thesis
    using x u a b
    by (auto simp: sync_range_def Let_def SyncBlockPeriod_def word_less_nat_alt min_def)
qed

lemma sync_range_scenario_S6:
  "sync_range \<lparr>chain = ''arbitrum'', EthAddress = []\<rparr> 100 90 = Some (90, 98)"
  by (simp add: sync_range_def MultiChainMaxBlockDifference_def SyncBlockPeriod_def Let_def)

text \<open>
  Claim C6. On chain \<^verbatim>\<open>eth\<close> (confirm depth 1) with the head at block 0 and the
  cursor at 0, the cursor is above \<open>head - confirmDepth = -1\<close>, so the claim has the
  loop sleep; the subtraction is done in \<^verbatim>\<open>uint64\<close>, wraps to \<open>2^64 - 1\<close>, and the
  loop queries the blocks 0 to 10. (Within \<open>confirmDepth \<le> head\<close> the range is the
  claimed one: \<open>sync_range_spec\<close>, \<open>sync_range_scenario_S6\<close>.)
\<close>

theorem sync_range_underflow:
  "uint (0 :: 64 word) > uint (0 :: 64 word) - uint (MultiChainMaxBlockDifference (chain ex_cfg)) \<and>
   sync_range ex_cfg 0 0 = Some (0, 10)"
  by (simp add: sync_range_def MultiChainMaxBlockDifference_def SyncBlockPeriod_def Let_def
      ex_cfg_def)

lemma sync_iteration_Next:
  assumes "sync_iteration cfg it lastSync s = (Next b, s')"
  shows "\<exists>head endBlock. BlockNumber_rpc it = Some head \<and>
           sync_range cfg head lastSync = Some (lastSync, endBlock) \<and>
           b = endBlock + 1 \<and> last_indexed_block s' = endBlock + 1"
  using assms
  by (auto simp: sync_iteration_def split: if_splits option.splits prod.splits
      dest: sync_range_start)

lemma sync_iteration_Sleep:
  "sync_iteration cfg it lastSync s = (Sleep b, s') \<Longrightarrow> b = lastSync \<and> s' = s"
  by (auto simp: sync_iteration_def split: if_splits option.splits prod.splits)

lemma sync_iteration_Stop:
  "sync_iteration cfg it lastSync s = (Stop, s') \<Longrightarrow>
     last_indexed_block s' = last_indexed_block s"
  by (auto simp: sync_iteration_def split: if_splits option.splits prod.splits
      dest: cursor_process_logs)

lemma sync_iteration_Crash:
  "sync_iteration cfg it lastSync s = (Crash, s') \<Longrightarrow> s' = s"
  by (auto simp: sync_iteration_def split: if_splits option.splits prod.splits)

lemma sync_iteration_Next_bounds:
  assumes n: "sync_iteration cfg it lastSync s = (Next b, s')"
    and no: "unat lastSync + 11 < 2 ^ 64"
  shows "lastSync < b \<and> unat b \<le> unat lastSync + 11 \<and> last_indexed_block s' = b"
proof -
  obtain head endBlock where r: "sync_range cfg head lastSync = Some (lastSync, endBlock)"
    and b: "b = endBlock + 1" and c: "last_indexed_block s' = endBlock + 1"
    using sync_iteration_Next [OF n] by blast
  have bd: "unat lastSync \<le> unat endBlock \<and> unat endBlock \<le> unat lastSync + 10"
    using sync_range_end_bounds [OF r] no by simp
  then have "unat endBlock + 1 < 2 ^ 64"
    using no by simp
  then have "unat (endBlock + 1) = unat endBlock + 1"
    by (simp add: unat_add_lem [THEN iffD1])
  then show ?thesis
    using b c bd by (simp add: word_less_nat_alt)
qed

lemma sync_loop_cursor:
  assumes "last_indexed_block s \<le> lastSync"
    and "unat lastSync + 11 * length its < 2 ^ 64"
  shows "last_indexed_block s \<le> last_indexed_block (sync_loop cfg its lastSync s) \<and>
         unat (last_indexed_block (sync_loop cfg its lastSync s)) \<le> unat lastSync + 11 * length its"
  using assms
proof (induction its arbitrary: lastSync s)
  case Nil
  then show ?case by (simp add: word_le_nat_alt)
next
  case (Cons it its)
  obtain r s1 where st: "sync_iteration cfg it lastSync s = (r, s1)"
    by (cases "sync_iteration cfg it lastSync s")
  have no: "unat lastSync + 11 < 2 ^ 64"
    using Cons.prems(2) by simp
  show ?case
  proof (cases r)
    case (Sleep b)
    then have e: "b = lastSync" "s1 = s"
      using st sync_iteration_Sleep by blast+
    have "last_indexed_block s \<le> last_indexed_block (sync_loop cfg its lastSync s) \<and>
         unat (last_indexed_block (sync_loop cfg its lastSync s)) \<le> unat lastSync + 11 * length its"
      using Cons.IH [of s lastSync] Cons.prems by simp
    then show ?thesis
      using st Sleep e by simp
  next
    case (Next b)
    have nb: "lastSync < b \<and> unat b \<le> unat lastSync + 11 \<and> last_indexed_block s1 = b"
      using sync_iteration_Next_bounds [OF _ no] st Next by blast
    then have "unat b + 11 * length its < 2 ^ 64"
      using Cons.prems(2) by simp
    then have ih: "last_indexed_block s1 \<le> last_indexed_block (sync_loop cfg its b s1) \<and>
         unat (last_indexed_block (sync_loop cfg its b s1)) \<le> unat b + 11 * length its"
      using Cons.IH [of s1 b] nb by simp
    have "last_indexed_block s \<le> last_indexed_block s1"
      using Cons.prems(1) nb by (simp add: word_le_nat_alt word_less_nat_alt)
    then show ?thesis
      using st Next ih nb by (auto simp: word_le_nat_alt)
  next
    case Stop
    then have "last_indexed_block s1 = last_indexed_block s"
      using st sync_iteration_Stop by blast
    then show ?thesis
      using st Stop Cons.prems(1) by (simp add: word_le_nat_alt)
  next
    case Crash
    then have "s1 = s"
      using st sync_iteration_Crash by blast
    then show ?thesis
      using st Crash Cons.prems(1) by (simp add: word_le_nat_alt)
  qed
qed

lemma SyncOrderBookEventLoop_cursor:
  assumes "unat (last_indexed_block s) + 11 * length (iterations r) < 2 ^ 64"
  shows "last_indexed_block s \<le> last_indexed_block (SyncOrderBookEventLoop cfg r s) \<and>
         unat (last_indexed_block (SyncOrderBookEventLoop cfg r s))
           \<le> unat (last_indexed_block s) + 11 * length (iterations r)"
  using sync_loop_cursor [of s "last_indexed_block s" "iterations r" cfg] assms
  by (simp add: SyncOrderBookEventLoop_def)

lemma restarts_cursor:
  assumes "unat (last_indexed_block s) + 11 * length (concat (map iterations rs)) < 2 ^ 64"
  shows "last_indexed_block s \<le> last_indexed_block (restarts cfg rs s) \<and>
         unat (last_indexed_block (restarts cfg rs s))
           \<le> unat (last_indexed_block s) + 11 * length (concat (map iterations rs))"
  using assms
proof (induction rs arbitrary: s)
  case Nil
  then show ?case by simp
next
  case (Cons r rs)
  let ?s1 = "SyncOrderBookEventLoop cfg r s"
  have one: "last_indexed_block s \<le> last_indexed_block ?s1 \<and>
         unat (last_indexed_block ?s1) \<le> unat (last_indexed_block s) + 11 * length (iterations r)"
    using SyncOrderBookEventLoop_cursor [of s r cfg] Cons.prems by simp
  then have "unat (last_indexed_block ?s1) + 11 * length (concat (map iterations rs)) < 2 ^ 64"
    using Cons.prems by simp
  then have "last_indexed_block ?s1 \<le> last_indexed_block (restarts cfg rs ?s1) \<and>
         unat (last_indexed_block (restarts cfg rs ?s1))
           \<le> unat (last_indexed_block ?s1) + 11 * length (concat (map iterations rs))"
    by (rule Cons.IH)
  then show ?case
    using one by (auto simp: word_le_nat_alt)
qed

lemma restarts_append: "restarts cfg (rs @ rs') s = restarts cfg rs' (restarts cfg rs s)"
  by (induction rs arbitrary: s) simp_all

text \<open>
  Claim C7. Over any sequence of runs of the loop (each run reads the cursor from the
  database, so a run after the first is a restart), the stored \<^verbatim>\<open>last_indexed_block\<close>
  never decreases: its value after the runs \<open>rs\<close> is at most its value after
  \<open>rs @ rs'\<close>. And an iteration that reaches the end of the loop body has stored
  \<open>endBlock + 1\<close>, for the range from \<^verbatim>\<open>lastSyncBlock\<close> to \<open>endBlock\<close> it queried.
  Block numbers are assumed to stay below \<open>2^64\<close>: the cursor grows by at most 11 in
  an iteration.
\<close>

theorem last_indexed_block_monotone:
  assumes bound: "unat (last_indexed_block s) + 11 * length (concat (map iterations (rs @ rs'))) < 2 ^ 64"
  shows "last_indexed_block (restarts cfg rs s) \<le> last_indexed_block (restarts cfg (rs @ rs') s) \<and>
         (\<forall>it lastSync t b t'. sync_iteration cfg it lastSync t = (Next b, t') \<longrightarrow>
            (\<exists>head endBlock. BlockNumber_rpc it = Some head \<and>
               sync_range cfg head lastSync = Some (lastSync, endBlock) \<and>
               b = endBlock + 1 \<and> last_indexed_block t' = endBlock + 1))"
proof -
  have a: "unat (last_indexed_block s) + 11 * length (concat (map iterations rs)) < 2 ^ 64"
    using bound by simp
  have "unat (last_indexed_block (restarts cfg rs s))
           \<le> unat (last_indexed_block s) + 11 * length (concat (map iterations rs))"
    using restarts_cursor [OF a] by simp
  then have "unat (last_indexed_block (restarts cfg rs s))
           + 11 * length (concat (map iterations rs')) < 2 ^ 64"
    using bound by simp
  then have "last_indexed_block (restarts cfg rs s)
      \<le> last_indexed_block (restarts cfg rs' (restarts cfg rs s))"
    using restarts_cursor by blast
  then show ?thesis
    using sync_iteration_Next by (simp add: restarts_append)
qed

lemma ex_iteration_result:
  "sync_iteration ex_cfg ex_iteration 90 ex_at_90 = (Next 100, ex_at_90\<lparr>last_indexed_block := 100\<rparr>)"
  by (simp add: sync_iteration_def sync_range_def MultiChainMaxBlockDifference_def
      SyncBlockPeriod_def ex_cfg_def ex_iteration_def ex_at_90_def ex_make_log_def
      ex_io_db_down_def ex_topic_def ex_make_event_def dispatch_log_def Hash_String_def
      LogMakeTopic_def HexPrefix_def make_defs Let_def)

lemma ex_iteration_sleeps_at_100:
  "sync_iteration ex_cfg ex_iteration 100 s = (Sleep 100, s)"
  by (simp add: sync_iteration_def sync_range_def MultiChainMaxBlockDifference_def
      ex_cfg_def ex_iteration_def)

lemma ex_run_result:
  "restarts ex_cfg [ex_run] ex_at_90 = ex_at_90\<lparr>last_indexed_block := 100\<rparr>"
  "restarts ex_cfg [ex_run, ex_run] ex_at_90 = ex_at_90\<lparr>last_indexed_block := 100\<rparr>"
proof -
  have c: "last_indexed_block ex_at_90 = 90"
    by (simp add: ex_at_90_def)
  show "restarts ex_cfg [ex_run] ex_at_90 = ex_at_90\<lparr>last_indexed_block := 100\<rparr>"
    by (simp add: SyncOrderBookEventLoop_def ex_run_def c ex_iteration_result)
  then show "restarts ex_cfg [ex_run, ex_run] ex_at_90 = ex_at_90\<lparr>last_indexed_block := 100\<rparr>"
    by (simp add: SyncOrderBookEventLoop_def ex_run_def ex_iteration_sleeps_at_100)
qed

text \<open>A run from block 90 with the head at 100, then a restart.\<close>

theorem last_indexed_block_monotone_witness:
  "last_indexed_block ex_at_90 = 90 \<and>
   last_indexed_block (restarts ex_cfg [ex_run] ex_at_90) = 100 \<and>
   last_indexed_block (restarts ex_cfg [ex_run] ex_at_90)
     \<le> last_indexed_block (restarts ex_cfg ([ex_run] @ [ex_run]) ex_at_90)"
proof -
  have bound: "unat (last_indexed_block ex_at_90)
      + 11 * length (concat (map iterations ([ex_run] @ [ex_run]))) < 2 ^ 64"
    by (simp add: ex_at_90_def ex_run_def)
  show ?thesis
    using last_indexed_block_monotone [OF bound, of ex_cfg] ex_run_result(1)
    by (simp add: ex_at_90_def)
qed






section \<open>Properties of the timer wheel\<close>





















lemma Insert_index [simp]: "current_index (Insert tnow order w) = current_index w"
  by (simp add: Insert_def Let_def)





end
